theory Spec2Isabelle
  imports Main
begin

section \<open>Python strings\<close>

text \<open>
  Strings are lists of characters, one character for each code point. The helpers below are the \<^verbatim>\<open>str\<close> methods that
  \<^verbatim>\<open>backend/main.py\<close> calls: \<^verbatim>\<open>startswith\<close>, \<^verbatim>\<open>replace\<close>, \<^verbatim>\<open>strip\<close>,
  \<^verbatim>\<open>split(",")[0]\<close>, slicing \<^verbatim>\<open>s[:50]\<close> (which is \<^term>\<open>take 50 s\<close>) and the
  decimal rendering of an integer inside an f-string.
\<close>

definition startswith :: "string \<Rightarrow> string \<Rightarrow> bool" where
  "startswith s p = (take (length p) s = p)"

text \<open>
  \<^verbatim>\<open>s.replace(old, new)\<close>: every non-overlapping occurrence of \<open>old\<close>, scanning from
  the left, is replaced. With an empty \<open>old\<close> Python inserts \<open>new\<close> before every
  character and at the end.
\<close>

function py_replace :: "string \<Rightarrow> string \<Rightarrow> string \<Rightarrow> string" where
  "py_replace old new [] = (if old = [] then new else [])"
| "py_replace old new (c # cs) =
     (if old = [] then new @ c # py_replace old new cs
      else if startswith (c # cs) old then new @ py_replace old new (drop (length old) (c # cs))
      else c # py_replace old new cs)"
  by pat_completeness auto
termination
  by (relation "measure (\<lambda>(old, new, s). length s)") auto

text \<open>
  A character stands for one code point below 256. Among these \<^verbatim>\<open>str.isspace\<close> holds
  for 9 to 13, 28 to 32, 133 (U+0085) and 160 (U+00A0), and these are what
  \<^verbatim>\<open>str.strip()\<close> removes. Text with code points from 256 on is outside the model.
\<close>

definition py_isspace :: "char \<Rightarrow> bool" where
  "py_isspace c =
     (let n = (of_char c :: nat)
      in (9 \<le> n \<and> n \<le> 13) \<or> (28 \<le> n \<and> n \<le> 32) \<or> n = 133 \<or> n = 160)"

definition py_strip :: "string \<Rightarrow> string" where
  "py_strip s = rev (dropWhile py_isspace (rev (dropWhile py_isspace s)))"

text \<open>\<^verbatim>\<open>s.split(",")[0]\<close>: the text before the first comma (all of \<open>s\<close> when there is none).\<close>

definition split_comma_first :: "string \<Rightarrow> string" where
  "split_comma_first s = takeWhile (\<lambda>c. c \<noteq> CHR '','') s"

function str_nat :: "nat \<Rightarrow> string" where
  "str_nat n =
     (if n < 10 then [''0123456789'' ! n]
      else str_nat (n div 10) @ [''0123456789'' ! (n mod 10)])"
  by pat_completeness auto
termination
  by (relation "measure id") auto

declare str_nat.simps [simp del]

definition str_int :: "int \<Rightarrow> string" where
  "str_int i = (if i < 0 then CHR ''-'' # str_nat (nat (- i)) else str_nat (nat i))"

section \<open>Data model\<close>

text \<open>A raised Python exception is represented by its text \<^verbatim>\<open>str(e)\<close>.\<close>

type_synonym exn = string

datatype json =
    JNull
  | JInt int
  | JStr string
  | JArr "json list"
  | JObj "(string \<times> json) list"

text \<open>A response is the dictionary the endpoint returns, with its keys in source order.\<close>

type_synonym response = "(string \<times> json) list"

definition field :: "response \<Rightarrow> string \<Rightarrow> json option" where
  "field r k = map_of r k"

definition has_key :: "response \<Rightarrow> string \<Rightarrow> bool" where
  "has_key r k = (field r k \<noteq> None)"

text \<open>
  The request as the endpoint reads it: the form field \<^verbatim>\<open>user_query\<close>, the JSON body's
  \<^verbatim>\<open>user_query\<close> (both optional), the \<^verbatim>\<open>X-Forwarded-For\<close> header and
  \<^verbatim>\<open>request.client.host\<close> (\<open>None\<close> when \<^verbatim>\<open>request.client\<close> is \<^verbatim>\<open>None\<close>).
\<close>

record request =
  form_user_query :: "string option"
  json_user_query :: "string option"
  x_forwarded_for :: "string option"
  client_host :: "string option"

text \<open>
  The arguments of one call \<^verbatim>\<open>IPTracker.record_query_history(client_ip, user_query,
  sql_query, succeeded)\<close>.
\<close>

record query_attempt =
  qa_client_ip :: string
  qa_natural_language_query :: string
  qa_generated_sql :: string
  qa_succeeded :: bool

datatype log_level = INFO | WARNING | ERROR

record db_log_entry =
  dl_level :: log_level
  dl_message :: string
  dl_source :: "string option"
  dl_ip_address :: "string option"

text \<open>Calls to the external collaborators, in the order they are made.\<close>

datatype ext_call =
    Call_generator string string
  | Call_validator string
  | Call_executor string

text \<open>
  Everything a request can change. \<^verbatim>\<open>services.ip_tracker.IPTracker\<close> is imported by
  \<^verbatim>\<open>main.py\<close> but defined elsewhere, so its store is a value of an arbitrary type
  \<open>'t\<close>. Beside it the world keeps the history entries handed to
  \<^verbatim>\<open>record_query_history\<close>, the three log sinks (\<^verbatim>\<open>logger\<close>,
  \<^verbatim>\<open>LogManager.log_to_db\<close>, \<^verbatim>\<open>LogManager.log_app_activity\<close>) and the trace of
  collaborator calls.
\<close>

record 't world =
  tracker :: 't
  history :: "query_attempt list"
  logger_lines :: "(log_level \<times> string) list"
  db_logs :: "db_log_entry list"
  activity_logs :: "(log_level \<times> string) list"
  calls :: "ext_call list"

text \<open>
  What the endpoint calls.
  \<^item> The four methods of \<^verbatim>\<open>IPTracker\<close> are parameters: the two getters read the
    tracker's store, \<^verbatim>\<open>check_ip_limit\<close> answers and may change the store, and
    \<open>record_query_history\<close> is what that call does to the store.
  \<^item> \<open>get_sql_query q p\<close> stands for lines 158 to 162, the expression
    \<^verbatim>\<open>json.loads(sql_generator.get_sql_for_query(q, p))["sql_query"]\<close>: \<open>Inl\<close> the text
    of whatever exception the block raises, \<open>Inr\<close> the string bound to \<^verbatim>\<open>sql_query\<close>.
  \<^item> \<open>validate_sql\<close> is \<^verbatim>\<open>SQLValidator.validate\<close>: it returns the pair
    \<^verbatim>\<open>(is_valid, error_message)\<close> or raises.
  \<^item> \<open>fetch_data\<close> stands for lines 235 to 239, \<^verbatim>\<open>sql_generator.fetch_data\<close> and the
    conversion of the data frame to a list of JSON rows.
\<close>

record 't env =
  get_global_remaining_requests :: "'t \<Rightarrow> int"
  check_ip_limit :: "'t \<Rightarrow> string \<Rightarrow> bool \<times> 't"
  get_ip_remaining_requests :: "'t \<Rightarrow> string \<Rightarrow> int"
  record_query_history :: "string \<Rightarrow> string \<Rightarrow> string \<Rightarrow> bool \<Rightarrow> 't \<Rightarrow> 't"
  system_prompt :: string
  get_sql_query :: "string \<Rightarrow> string \<Rightarrow> exn + string"
  validate_sql :: "string \<Rightarrow> exn + (bool \<times> string)"
  fetch_data :: "string \<Rightarrow> exn + json list"

section \<open>Logging sinks and the history\<close>

text \<open>
  Modelled from the spec: \<^verbatim>\<open>utils.logger\<close> and \<^verbatim>\<open>models.db_models.LogManager\<close> are
  imported by \<^verbatim>\<open>main.py\<close> but defined elsewhere; the spec treats them as logging
  plumbing. Each call is recorded by appending its arguments to the sink's list.
\<close>

definition logger_log :: "log_level \<Rightarrow> string \<Rightarrow> 't world \<Rightarrow> 't world" where
  "logger_log lv msg w = w\<lparr>logger_lines := logger_lines w @ [(lv, msg)]\<rparr>"

definition log_to_db ::
  "log_level \<Rightarrow> string \<Rightarrow> string option \<Rightarrow> string option \<Rightarrow> 't world \<Rightarrow> 't world" where
  "log_to_db lv msg src ip w =
     w\<lparr>db_logs := db_logs w @
        [\<lparr>dl_level = lv, dl_message = msg, dl_source = src, dl_ip_address = ip\<rparr>]\<rparr>"

definition log_app_activity :: "log_level \<Rightarrow> string \<Rightarrow> 't world \<Rightarrow> 't world" where
  "log_app_activity lv msg w = w\<lparr>activity_logs := activity_logs w @ [(lv, msg)]\<rparr>"

definition attempt :: "string \<Rightarrow> string \<Rightarrow> string \<Rightarrow> bool \<Rightarrow> query_attempt" where
  "attempt ip q sql ok =
     \<lparr>qa_client_ip = ip, qa_natural_language_query = q, qa_generated_sql = sql,
      qa_succeeded = ok\<rparr>"

text \<open>
  A call \<^verbatim>\<open>IPTracker.record_query_history(ip, q, sql, ok)\<close>: the tracker's store changes
  as the method says, and the entry joins the history, which the spec describes as
  append-only.
\<close>

definition record_attempt ::
  "'t env \<Rightarrow> string \<Rightarrow> string \<Rightarrow> string \<Rightarrow> bool \<Rightarrow> 't world \<Rightarrow> 't world" where
  "record_attempt e ip q sql ok w =
     w\<lparr>tracker := record_query_history e ip q sql ok (tracker w),
       history := history w @ [attempt ip q sql ok]\<rparr>"

section \<open>The endpoint \<^verbatim>\<open>process_query\<close>\<close>

text \<open>Step 2 (lines 124 to 128): the client address.\<close>

definition resolve_client_ip :: "request \<Rightarrow> exn + string" where
  "resolve_client_ip req =
     (case x_forwarded_for req of
        Some (c # cs) \<Rightarrow> Inr (py_strip (split_comma_first (c # cs)))
      | _ \<Rightarrow>
        (case client_host req of
           Some h \<Rightarrow> Inr h
         | None \<Rightarrow> Inl (CHR 0x27 # ''NoneType'' @ CHR 0x27 # '' object has no attribute '' @
                       CHR 0x27 # ''host'' @ [CHR 0x27])))"

text \<open>The dictionary under \<^verbatim>\<open>remaining_requests\<close>, read from the tracker's store.\<close>

definition remaining_requests :: "'t env \<Rightarrow> 't \<Rightarrow> string \<Rightarrow> json" where
  "remaining_requests e t client_ip =
     JObj [(''user_remaining'', JInt (get_ip_remaining_requests e t client_ip)),
           (''global_remaining'', JInt (get_global_remaining_requests e t))]"

definition global_limit_message :: string where
  "global_limit_message =
     ''The service has reached its daily request limit. Please try again tomorrow.''"

definition ip_limit_message :: "int \<Rightarrow> string" where
  "ip_limit_message ip_remaining =
     ''You have exceeded your daily limit. You have '' @ str_int ip_remaining @
     '' requests remaining for today.''"

definition execution_failure_message :: string where
  "execution_failure_message = ''Oops! Something went wrong while trying to get your answer.''"

text \<open>Step 7 (lines 233 to 279): execute the query and build the response.\<close>

definition execute_step ::
  "'t env \<Rightarrow> string \<Rightarrow> string \<Rightarrow> string \<Rightarrow> 't world \<Rightarrow> response \<times> 't world" where
  "execute_step e client_ip user_query sql_query w =
     (let w1 = w\<lparr>calls := calls w @ [Call_executor sql_query]\<rparr> in
      case fetch_data e sql_query of
        Inr json_result \<Rightarrow>
          (let w2 = record_attempt e client_ip user_query sql_query True w1;
               w3 = logger_log INFO
                      (''Query executed successfully with '' @ str_nat (length json_result) @
                       '' results (numeric values rounded to 2 decimal places)'') w2;
               w4 = log_app_activity INFO
                      (''Successful query from '' @ client_ip @ '': '' @ take 50 user_query @ ''...'') w3
           in ([(''sql_query'', JStr sql_query),
                (''result'', JArr json_result),
                (''remaining_requests'', remaining_requests e (tracker w4) client_ip)], w4))
      | Inl ex \<Rightarrow>
          (let w2 = record_attempt e client_ip user_query sql_query False w1;
               error_msg = ''Error executing query: '' @ ex;
               w3 = logger_log ERROR error_msg w2;
               w4 = log_to_db ERROR error_msg (Some ''SQL execution'') (Some client_ip) w3
           in ([(''sql_query'', JStr sql_query),
                (''error'', JStr execution_failure_message),
                (''remaining_requests'', remaining_requests e (tracker w4) client_ip)], w4)))"

text \<open>Step 6.5 (lines 200 to 232): the second layer of SQL validation.\<close>

definition validate_step ::
  "'t env \<Rightarrow> string \<Rightarrow> string \<Rightarrow> string \<Rightarrow> 't world \<Rightarrow> response \<times> 't world" where
  "validate_step e client_ip user_query sql_query w =
     (let w1 = w\<lparr>calls := calls w @ [Call_validator sql_query]\<rparr> in
      case validate_sql e sql_query of
        Inr (is_valid, error_message) \<Rightarrow>
          (if \<not> is_valid then
             (let w2 = logger_log WARNING
                         (''SQL validation failed in process_query step: '' @ error_message) w1;
                  w3 = log_to_db WARNING (''SQL validation failed: '' @ error_message)
                         (Some ''SQL validation'') (Some client_ip) w2;
                  w4 = record_attempt e client_ip user_query sql_query False w3
              in ([(''sql_query'', JStr sql_query),
                   (''error'', JStr (''I don't answer unsafe query: '' @ error_message)),
                   (''remaining_requests'', remaining_requests e (tracker w4) client_ip)], w4))
           else execute_step e client_ip user_query sql_query w1)
      | Inl ex \<Rightarrow>
          (let w2 = logger_log ERROR (''Error during SQL validation step: '' @ ex) w1;
               w3 = log_to_db WARNING (''SQL validation error: '' @ ex)
                      (Some ''SQL validation'') (Some client_ip) w2
           in execute_step e client_ip user_query sql_query w3))"

text \<open>Step 6 (lines 177 to 199): a generated text that starts with the error marker.\<close>

definition error_token_step ::
  "'t env \<Rightarrow> string \<Rightarrow> string \<Rightarrow> string \<Rightarrow> 't world \<Rightarrow> response \<times> 't world" where
  "error_token_step e client_ip user_query sql_query w =
     (if startswith sql_query ''ERROR:'' then
        (let w1 = record_attempt e client_ip user_query sql_query False w;
             error_msg = py_strip (py_replace ''ERROR:'' '''' sql_query);
             w2 = logger_log WARNING (''SQL generation returned error: '' @ error_msg) w1;
             w3 = log_to_db WARNING (''SQL generation error: '' @ error_msg)
                    (Some ''SQL generation'') (Some client_ip) w2
         in ([(''sql_query'', JStr sql_query),
              (''error'', JStr error_msg),
              (''remaining_requests'', remaining_requests e (tracker w3) client_ip)], w3))
      else validate_step e client_ip user_query sql_query w)"

text \<open>Step 5 (lines 156 to 175): generate the SQL text.\<close>

definition generate_step ::
  "'t env \<Rightarrow> string \<Rightarrow> string \<Rightarrow> 't world \<Rightarrow> response \<times> 't world" where
  "generate_step e client_ip user_query w =
     (let w1 = w\<lparr>calls := calls w @ [Call_generator user_query (system_prompt e)]\<rparr> in
      case get_sql_query e user_query (system_prompt e) of
        Inr sql_query \<Rightarrow>
          (let w2 = logger_log INFO (''SQL query generated: '' @ take 50 sql_query @ ''...'') w1
           in error_token_step e client_ip user_query sql_query w2)
      | Inl ex \<Rightarrow>
          (let error_msg = ''Failed to generate SQL: '' @ ex;
               w2 = logger_log ERROR error_msg w1;
               w3 = log_to_db ERROR error_msg (Some ''SQL generation'') (Some client_ip) w2
           in ([(''error'', JStr ''Try again later. The server is having trouble.''),
                (''remaining_requests'', remaining_requests e (tracker w3) client_ip)], w3)))"

text \<open>Steps 3 and 4 (lines 132 to 154): the global limit first, then the per-IP limit.\<close>

definition admission_step ::
  "'t env \<Rightarrow> string \<Rightarrow> string \<Rightarrow> 't world \<Rightarrow> response \<times> 't world" where
  "admission_step e client_ip user_query w =
     (let global_remaining = get_global_remaining_requests e (tracker w) in
      if global_remaining \<le> 0 then
        (let w1 = logger_log WARNING ''Global daily limit reached'' w;
             w2 = log_to_db WARNING ''Global daily limit reached'' None (Some client_ip) w1
         in ([(''error'', JStr global_limit_message)], w2))
      else
        (let (within_limit, t1) = check_ip_limit e (tracker w) client_ip;
             w0 = w\<lparr>tracker := t1\<rparr>
         in if \<not> within_limit then
              (let ip_remaining = get_ip_remaining_requests e (tracker w0) client_ip;
                   w1 = logger_log WARNING (''IP '' @ client_ip @ '' exceeded request limit'') w0;
                   w2 = log_to_db WARNING (''IP exceeded request limit: '' @ client_ip)
                          None (Some client_ip) w1
               in ([(''error'', JStr (ip_limit_message ip_remaining))], w2))
            else generate_step e client_ip user_query w0))"

text \<open>
  The body of the outer \<^verbatim>\<open>try\<close> (lines 119 to 279). It raises only where the client
  address cannot be read; the collaborators' exceptions are caught by the inner handlers.
\<close>

definition pipeline ::
  "'t env \<Rightarrow> request \<Rightarrow> string \<Rightarrow> 't world \<Rightarrow> (exn + response) \<times> 't world" where
  "pipeline e req user_query w =
     (let w1 = logger_log INFO (''Received query: '' @ user_query) w in
      case resolve_client_ip req of
        Inl ex \<Rightarrow> (Inl ex, w1)
      | Inr client_ip \<Rightarrow>
          (let w2 = logger_log INFO (''Request from IP: '' @ client_ip) w1;
               (resp, w3) = admission_step e client_ip user_query w2
           in (Inr resp, w3)))"

text \<open>Lines 110 to 117: the query comes from the form field, else from the JSON body.\<close>

definition query_of :: "request \<Rightarrow> string option" where
  "query_of req =
     (case form_user_query req of
        Some q \<Rightarrow> Some q
      | None \<Rightarrow> json_user_query req)"

definition process_query :: "'t env \<Rightarrow> request \<Rightarrow> 't world \<Rightarrow> response \<times> 't world" where
  "process_query e req w =
     (case query_of req of
        None \<Rightarrow>
          ([(''error'', JStr ''No query provided. Please submit a 'user_query' parameter.'')],
           logger_log ERROR ''No query provided in request'' w)
      | Some user_query \<Rightarrow>
          (case pipeline e req user_query w of
             (Inr resp, w1) \<Rightarrow> (resp, w1)
           | (Inl ex, w1) \<Rightarrow>
               (let w2 = logger_log ERROR (''Validation error in process_query: '' @ ex) w1;
                    w3 = log_to_db ERROR (''Validation error: '' @ ex) (Some ''API endpoint'')
                           (Some (case client_host req of Some h \<Rightarrow> h | None \<Rightarrow> ''unknown'')) w2
                in ([(''error'', JStr ''Invalid request format. Please ensure you're sending the correct form data.''),
                     (''details'', JStr ex)], w3))))"

text \<open>
  The rate limiter admits a request when neither check of steps 3 and 4 rejects it.
\<close>

definition admitted :: "'t env \<Rightarrow> 't world \<Rightarrow> string \<Rightarrow> bool" where
  "admitted e w ip =
     (0 < get_global_remaining_requests e (tracker w) \<and> fst (check_ip_limit e (tracker w) ip))"

text \<open>
  The validator rejects a text when it returns \<^verbatim>\<open>is_valid = False\<close>; a validator that
  raises has not rejected it.
\<close>

definition validator_rejects :: "'t env \<Rightarrow> string \<Rightarrow> bool" where
  "validator_rejects e sql = (case validate_sql e sql of Inr (ok, m) \<Rightarrow> \<not> ok | Inl ex \<Rightarrow> False)"

text \<open>
  A request whose generator returned the text \<open>sql\<close> is recorded as succeeded when the
  text is no error marker, the validator did not reject it and the executor returned rows.
\<close>

definition succeeded :: "'t env \<Rightarrow> string \<Rightarrow> bool" where
  "succeeded e sql =
     (\<not> startswith sql ''ERROR:'' \<and> \<not> validator_rejects e sql \<and> \<not> isl (fetch_data e sql))"

text \<open>The collaborator calls that follow the generator's call for the text \<open>sql\<close>.\<close>

definition calls_after_generation :: "'t env \<Rightarrow> string \<Rightarrow> ext_call list" where
  "calls_after_generation e sql =
     (if startswith sql ''ERROR:'' then []
      else Call_validator sql # (if validator_rejects e sql then [] else [Call_executor sql]))"

text \<open>
  The tracker's store after an admitted request whose history entry was recorded: first
  the per-IP check, then the call that records the entry.
\<close>

definition tracker_after :: "'t env \<Rightarrow> string \<Rightarrow> string \<Rightarrow> string \<Rightarrow> bool \<Rightarrow> 't \<Rightarrow> 't" where
  "tracker_after e ip q sql ok t =
     record_query_history e ip q sql ok (snd (check_ip_limit e t ip))"

section \<open>SQL Safety Validator\<close>































section \<open>Concrete requests and environments\<close>

text \<open>
  A tracker to run the endpoint on: its store is the number of history entries recorded
  so far, and both limits are compared with that number.
\<close>

definition fresh_world :: "nat world" where
  "fresh_world =
     \<lparr>tracker = 0, history = [], logger_lines = [], db_logs = [], activity_logs = [],
      calls = []\<rparr>"

definition demo_request :: request where
  "demo_request =
     \<lparr>form_user_query = Some ''top scorers'', json_user_query = None,
      x_forwarded_for = Some ''203.0.113.7, 10.0.0.1'', client_host = Some ''10.0.0.1''\<rparr>"

definition no_client_request :: request where
  "no_client_request =
     \<lparr>form_user_query = None, json_user_query = Some ''top scorers'',
      x_forwarded_for = None, client_host = None\<rparr>"

definition counting_env :: "int \<Rightarrow> int \<Rightarrow> nat env" where
  "counting_env global_limit ip_limit =
     \<lparr>get_global_remaining_requests = (\<lambda>n. max 0 (global_limit - int n)),
      check_ip_limit = (\<lambda>n ip. (int n < ip_limit, n)),
      get_ip_remaining_requests = (\<lambda>n ip. max 0 (ip_limit - int n)),
      record_query_history = (\<lambda>ip q sql ok n. Suc n),
      system_prompt = ''prompt'',
      get_sql_query = (\<lambda>q p. Inr ''SELECT name FROM matches''),
      validate_sql = (\<lambda>sql. Inr (True, [])),
      fetch_data = (\<lambda>sql. Inr [JObj [(''name'', JStr ''final'')]])\<rparr>"

definition demo_env :: "nat env" where
  "demo_env = counting_env 100 5"

definition env_global_exhausted :: "nat env" where
  "env_global_exhausted = counting_env 0 0"

definition env_ip_exhausted :: "nat env" where
  "env_ip_exhausted = counting_env 100 0"

definition env_generator_raises :: "nat env" where
  "env_generator_raises = demo_env\<lparr>get_sql_query := (\<lambda>q p. Inl ''Expecting value: line 1 column 1 (char 0)'')\<rparr>"

definition env_error_token :: "nat env" where
  "env_error_token = demo_env\<lparr>get_sql_query := (\<lambda>q p. Inr ''ERROR: bad ERROR: worse'')\<rparr>"

definition env_validator_rejects :: "nat env" where
  "env_validator_rejects = demo_env\<lparr>validate_sql := (\<lambda>sql. Inr (False, ''Forbidden keyword: DROP''))\<rparr>"

definition env_validator_fault :: "nat env" where
  "env_validator_fault =
     demo_env\<lparr>get_sql_query := (\<lambda>q p. Inr ''DROP TABLE matches''),
              validate_sql := (\<lambda>sql. Inl ''parser crashed'')\<rparr>"

definition env_executor_fails :: "nat env" where
  "env_executor_fails = demo_env\<lparr>fetch_data := (\<lambda>sql. Inl ''Catalog Error: no such table'')\<rparr>"

definition other_failure :: "string \<Rightarrow> exn + json list" where
  "other_failure sql = Inl ''IO Error: disk full''"

section \<open>Properties of the pipeline steps\<close>

lemmas sink_defs = logger_log_def log_to_db_def log_app_activity_def

text \<open>The log sinks touch neither the tracker's store, the history nor the call trace.\<close>

lemma sink_fields [simp]:
  "tracker (logger_log lv m w) = tracker w"
  "tracker (log_to_db lv m s i w) = tracker w"
  "tracker (log_app_activity lv m w) = tracker w"
  "history (logger_log lv m w) = history w"
  "history (log_to_db lv m s i w) = history w"
  "history (log_app_activity lv m w) = history w"
  "calls (logger_log lv m w) = calls w"
  "calls (log_to_db lv m s i w) = calls w"
  "calls (log_app_activity lv m w) = calls w"
  "db_logs (logger_log lv m w) = db_logs w"
  "db_logs (log_app_activity lv m w) = db_logs w"
  "db_logs (log_to_db lv m s i w) =
     db_logs w @ [\<lparr>dl_level = lv, dl_message = m, dl_source = s, dl_ip_address = i\<rparr>]"
  by (simp_all add: sink_defs)

lemma record_fields [simp]:
  "tracker (record_attempt e ip q sql ok w) = record_query_history e ip q sql ok (tracker w)"
  "history (record_attempt e ip q sql ok w) = history w @ [attempt ip q sql ok]"
  "calls (record_attempt e ip q sql ok w) = calls w"
  "db_logs (record_attempt e ip q sql ok w) = db_logs w"
  by (simp_all add: record_attempt_def)

lemma admitted_logged [simp]:
  "admitted e (logger_log lv m w) ip = admitted e w ip"
  by (simp add: admitted_def)

text \<open>The endpoint before the rate limiter.\<close>

lemma pq_admission:
  "query_of req = Some q \<Longrightarrow> resolve_client_ip req = Inr ip \<Longrightarrow>
   process_query e req w =
     admission_step e ip q
       (logger_log INFO (''Request from IP: '' @ ip) (logger_log INFO (''Received query: '' @ q) w))"
  by (simp add: process_query_def pipeline_def Let_def split: prod.splits)

text \<open>The three outcomes of the rate limiter.\<close>

lemma admission_global:
  "get_global_remaining_requests e (tracker w) \<le> 0 \<Longrightarrow>
   admission_step e ip q w =
     ([(''error'', JStr global_limit_message)],
      log_to_db WARNING ''Global daily limit reached'' None (Some ip)
        (logger_log WARNING ''Global daily limit reached'' w))"
  by (simp add: admission_step_def Let_def)

lemma admission_ip:
  "0 < get_global_remaining_requests e (tracker w) \<Longrightarrow>
   \<not> fst (check_ip_limit e (tracker w) ip) \<Longrightarrow>
   admission_step e ip q w =
     ([(''error'', JStr (ip_limit_message
          (get_ip_remaining_requests e (snd (check_ip_limit e (tracker w) ip)) ip)))],
      log_to_db WARNING (''IP exceeded request limit: '' @ ip) None (Some ip)
        (logger_log WARNING (''IP '' @ ip @ '' exceeded request limit'')
          (w\<lparr>tracker := snd (check_ip_limit e (tracker w) ip)\<rparr>)))"
  by (simp add: admission_step_def Let_def case_prod_beta)

lemma admission_admitted:
  "admitted e w ip \<Longrightarrow>
   admission_step e ip q w =
     generate_step e ip q (w\<lparr>tracker := snd (check_ip_limit e (tracker w) ip)\<rparr>)"
  by (simp add: admission_step_def admitted_def Let_def case_prod_beta)

lemma pq_generate:
  "query_of req = Some q \<Longrightarrow> resolve_client_ip req = Inr ip \<Longrightarrow> admitted e w ip \<Longrightarrow>
   process_query e req w =
     generate_step e ip q
       ((logger_log INFO (''Request from IP: '' @ ip) (logger_log INFO (''Received query: '' @ q) w))
          \<lparr>tracker := snd (check_ip_limit e (tracker w) ip)\<rparr>)"
  by (simp add: pq_admission admission_admitted)

lemma pq_global_rejected:
  assumes "query_of req = Some q" and "resolve_client_ip req = Inr ip"
    and "get_global_remaining_requests e (tracker w) \<le> 0"
  shows "fst (process_query e req w) = [(''error'', JStr global_limit_message)]"
    and "tracker (snd (process_query e req w)) = tracker w"
    and "history (snd (process_query e req w)) = history w"
    and "calls (snd (process_query e req w)) = calls w"
    and "db_logs (snd (process_query e req w)) =
           db_logs w @ [\<lparr>dl_level = WARNING, dl_message = ''Global daily limit reached'',
                          dl_source = None, dl_ip_address = Some ip\<rparr>]"
  using assms by (simp_all add: pq_admission admission_global)

lemma pq_ip_rejected:
  assumes "query_of req = Some q" and "resolve_client_ip req = Inr ip"
    and "0 < get_global_remaining_requests e (tracker w)"
    and "\<not> fst (check_ip_limit e (tracker w) ip)"
  shows "fst (process_query e req w) =
           [(''error'', JStr (ip_limit_message
              (get_ip_remaining_requests e (snd (check_ip_limit e (tracker w) ip)) ip)))]"
    and "tracker (snd (process_query e req w)) = snd (check_ip_limit e (tracker w) ip)"
    and "history (snd (process_query e req w)) = history w"
    and "calls (snd (process_query e req w)) = calls w"
    and "db_logs (snd (process_query e req w)) =
           db_logs w @ [\<lparr>dl_level = WARNING, dl_message = ''IP exceeded request limit: '' @ ip,
                          dl_source = None, dl_ip_address = Some ip\<rparr>]"
  using assms by (simp_all add: pq_admission admission_ip)

lemma not_admitted_cases:
  "\<not> admitted e w ip \<Longrightarrow>
   get_global_remaining_requests e (tracker w) \<le> 0 \<or>
   (0 < get_global_remaining_requests e (tracker w) \<and> \<not> fst (check_ip_limit e (tracker w) ip))"
  by (auto simp add: admitted_def)

text \<open>The effects of the execution step.\<close>

lemma execute_step_world:
  "tracker (snd (execute_step e ip q sql w)) =
     record_query_history e ip q sql (\<not> isl (fetch_data e sql)) (tracker w)"
  "history (snd (execute_step e ip q sql w)) =
     history w @ [attempt ip q sql (\<not> isl (fetch_data e sql))]"
  "calls (snd (execute_step e ip q sql w)) = calls w @ [Call_executor sql]"
  by (simp_all add: execute_step_def Let_def split: sum.splits)

lemma execute_step_response:
  "fst (execute_step e ip q sql w) =
     [(''sql_query'', JStr sql),
      (case fetch_data e sql of
         Inr rows \<Rightarrow> (''result'', JArr rows)
       | Inl ex \<Rightarrow> (''error'', JStr execution_failure_message)),
      (''remaining_requests'',
         remaining_requests e
           (record_query_history e ip q sql (\<not> isl (fetch_data e sql)) (tracker w)) ip)]"
  by (simp add: execute_step_def Let_def split: sum.splits)

text \<open>The effects of the validation step.\<close>

lemma validate_step_world:
  "tracker (snd (validate_step e ip q sql w)) =
     record_query_history e ip q sql
       (\<not> validator_rejects e sql \<and> \<not> isl (fetch_data e sql)) (tracker w)"
  "history (snd (validate_step e ip q sql w)) =
     history w @ [attempt ip q sql (\<not> validator_rejects e sql \<and> \<not> isl (fetch_data e sql))]"
  "calls (snd (validate_step e ip q sql w)) =
     calls w @ Call_validator sql # (if validator_rejects e sql then [] else [Call_executor sql])"
  by (simp_all add: validate_step_def validator_rejects_def execute_step_world Let_def
      split: sum.splits prod.splits)

lemma validate_step_response:
  "fst (validate_step e ip q sql w) =
     (case validate_sql e sql of
        Inr (ok, m) \<Rightarrow>
          if ok then fst (execute_step e ip q sql w)
          else [(''sql_query'', JStr sql),
                (''error'', JStr (''I don't answer unsafe query: '' @ m)),
                (''remaining_requests'',
                   remaining_requests e (record_query_history e ip q sql False (tracker w)) ip)]
      | Inl ex \<Rightarrow> fst (execute_step e ip q sql w))"
  by (simp add: validate_step_def execute_step_response Let_def split: sum.splits prod.splits)

text \<open>The effects of steps 6 to 7, once the generator has returned a text.\<close>

lemma error_token_step_world:
  "tracker (snd (error_token_step e ip q sql w)) =
     record_query_history e ip q sql (succeeded e sql) (tracker w)"
  "history (snd (error_token_step e ip q sql w)) = history w @ [attempt ip q sql (succeeded e sql)]"
  "calls (snd (error_token_step e ip q sql w)) = calls w @ calls_after_generation e sql"
  by (simp_all add: error_token_step_def validate_step_world succeeded_def
      calls_after_generation_def Let_def)

lemma error_token_step_response:
  "fst (error_token_step e ip q sql w) =
     (if startswith sql ''ERROR:'' then
        [(''sql_query'', JStr sql),
         (''error'', JStr (py_strip (py_replace ''ERROR:'' [] sql))),
         (''remaining_requests'',
            remaining_requests e (record_query_history e ip q sql False (tracker w)) ip)]
      else fst (validate_step e ip q sql w))"
  by (simp add: error_token_step_def Let_def)

lemma generate_step_sql:
  "get_sql_query e q (system_prompt e) = Inr sql \<Longrightarrow>
   generate_step e ip q w =
     error_token_step e ip q sql
       (logger_log INFO (''SQL query generated: '' @ take 50 sql @ ''...'')
          (w\<lparr>calls := calls w @ [Call_generator q (system_prompt e)]\<rparr>))"
  by (simp add: generate_step_def Let_def)

lemma generate_step_raises:
  "get_sql_query e q (system_prompt e) = Inl ex \<Longrightarrow>
   generate_step e ip q w =
     ([(''error'', JStr ''Try again later. The server is having trouble.''),
       (''remaining_requests'', remaining_requests e (tracker w) ip)],
      log_to_db ERROR (''Failed to generate SQL: '' @ ex) (Some ''SQL generation'') (Some ip)
        (logger_log ERROR (''Failed to generate SQL: '' @ ex)
          (w\<lparr>calls := calls w @ [Call_generator q (system_prompt e)]\<rparr>)))"
  by (simp add: generate_step_def Let_def)

text \<open>The whole endpoint for an admitted request.\<close>

lemma pq_generated_world:
  assumes "query_of req = Some q" and "resolve_client_ip req = Inr ip" and "admitted e w ip"
    and "get_sql_query e q (system_prompt e) = Inr sql"
  shows "tracker (snd (process_query e req w)) =
           tracker_after e ip q sql (succeeded e sql) (tracker w)"
    and "history (snd (process_query e req w)) = history w @ [attempt ip q sql (succeeded e sql)]"
    and "calls (snd (process_query e req w)) =
           calls w @ Call_generator q (system_prompt e) # calls_after_generation e sql"
  using assms
  by (simp_all add: pq_generate generate_step_sql error_token_step_world tracker_after_def)

lemma pq_generated_response:
  assumes "query_of req = Some q" and "resolve_client_ip req = Inr ip" and "admitted e w ip"
    and "get_sql_query e q (system_prompt e) = Inr sql"
  shows "fst (process_query e req w) =
     (if startswith sql ''ERROR:'' then
        [(''sql_query'', JStr sql),
         (''error'', JStr (py_strip (py_replace ''ERROR:'' [] sql))),
         (''remaining_requests'',
            remaining_requests e (tracker_after e ip q sql False (tracker w)) ip)]
      else if validator_rejects e sql then
        [(''sql_query'', JStr sql),
         (''error'', JStr (''I don't answer unsafe query: '' @
             (case validate_sql e sql of Inr (ok, m) \<Rightarrow> m | Inl ex \<Rightarrow> []))),
         (''remaining_requests'',
            remaining_requests e (tracker_after e ip q sql False (tracker w)) ip)]
      else
        [(''sql_query'', JStr sql),
         (case fetch_data e sql of
            Inr rows \<Rightarrow> (''result'', JArr rows)
          | Inl ex \<Rightarrow> (''error'', JStr execution_failure_message)),
         (''remaining_requests'',
            remaining_requests e
              (tracker_after e ip q sql (\<not> isl (fetch_data e sql)) (tracker w)) ip)])"
  using assms
  by (simp add: pq_generate generate_step_sql error_token_step_response validate_step_response
      execute_step_response validator_rejects_def tracker_after_def
      split: sum.splits prod.splits)

lemma pq_generation_raises:
  assumes "query_of req = Some q" and "resolve_client_ip req = Inr ip" and "admitted e w ip"
    and "get_sql_query e q (system_prompt e) = Inl ex"
  shows "tracker (snd (process_query e req w)) = snd (check_ip_limit e (tracker w) ip)"
    and "history (snd (process_query e req w)) = history w"
    and "calls (snd (process_query e req w)) = calls w @ [Call_generator q (system_prompt e)]"
    and "fst (process_query e req w) =
           [(''error'', JStr ''Try again later. The server is having trouble.''),
            (''remaining_requests'',
               remaining_requests e (snd (check_ip_limit e (tracker w) ip)) ip)]"
    and "db_logs (snd (process_query e req w)) =
           db_logs w @ [\<lparr>dl_level = ERROR, dl_message = ''Failed to generate SQL: '' @ ex,
                          dl_source = Some ''SQL generation'', dl_ip_address = Some ip\<rparr>]"
  using assms by (simp_all add: pq_generate generate_step_raises)

text \<open>Facts about the concrete requests and environments.\<close>

lemma demo_request_facts:
  "query_of demo_request = Some ''top scorers''"
  "resolve_client_ip demo_request = Inr ''203.0.113.7''"
  by (simp_all add: query_of_def demo_request_def resolve_client_ip_def py_strip_def
      split_comma_first_def py_isspace_def)

lemma no_client_request_facts:
  "query_of no_client_request = Some ''top scorers''"
  "resolve_client_ip no_client_request =
     Inl (CHR 0x27 # ''NoneType'' @ CHR 0x27 # '' object has no attribute '' @
          CHR 0x27 # ''host'' @ [CHR 0x27])"
  by (simp_all add: query_of_def no_client_request_def resolve_client_ip_def)

lemmas env_defs = counting_env_def demo_env_def env_global_exhausted_def env_ip_exhausted_def
  env_generator_raises_def env_error_token_def env_validator_rejects_def
  env_validator_fault_def env_executor_fails_def

lemma demo_admitted:
  "admitted demo_env fresh_world ''203.0.113.7''"
  "admitted env_generator_raises fresh_world ''203.0.113.7''"
  "admitted env_error_token fresh_world ''203.0.113.7''"
  "admitted env_validator_rejects fresh_world ''203.0.113.7''"
  "admitted env_validator_fault fresh_world ''203.0.113.7''"
  "admitted env_executor_fails fresh_world ''203.0.113.7''"
  by (simp_all add: admitted_def env_defs fresh_world_def)

lemma demo_rejected:
  "\<not> admitted env_global_exhausted fresh_world ''203.0.113.7''"
  "\<not> admitted env_ip_exhausted fresh_world ''203.0.113.7''"
  "get_global_remaining_requests env_global_exhausted (tracker fresh_world) = 0"
  "get_ip_remaining_requests env_global_exhausted (tracker fresh_world) ''203.0.113.7'' = 0"
  "0 < get_global_remaining_requests env_ip_exhausted (tracker fresh_world)"
  "\<not> fst (check_ip_limit env_ip_exhausted (tracker fresh_world) ''203.0.113.7'')"
  by (simp_all add: admitted_def env_defs fresh_world_def)

section \<open>The claims about the endpoint\<close>

text \<open>
  Claim C3. The global quota is looked at before the per-IP quota: when both the global
  and the per-IP remaining figures are 0, the rejection returned is the global one, with
  the message that the service has reached its daily limit, and never the per-IP one.
\<close>

theorem global_limit_takes_precedence:
  assumes "query_of req = Some q" and "resolve_client_ip req = Inr ip"
    and "get_global_remaining_requests e (tracker w) = 0"
    and "get_ip_remaining_requests e (tracker w) ip = 0"
  shows "fst (process_query e req w) = [(''error'', JStr global_limit_message)] \<and>
         (\<forall>n. fst (process_query e req w) \<noteq> [(''error'', JStr (ip_limit_message n))])"
  using assms
  by (simp add: pq_admission admission_global global_limit_message_def ip_limit_message_def)

theorem global_limit_takes_precedence_witness:
  "get_global_remaining_requests env_global_exhausted (tracker fresh_world) = 0 \<and>
   get_ip_remaining_requests env_global_exhausted (tracker fresh_world) ''203.0.113.7'' = 0 \<and>
   fst (process_query env_global_exhausted demo_request fresh_world) =
     [(''error'', JStr ''The service has reached its daily request limit. Please try again tomorrow.'')]"
  using global_limit_takes_precedence [OF demo_request_facts demo_rejected(3,4)] demo_rejected(3,4)
  by (simp add: global_limit_message_def)

text \<open>
  Claim C5. For an admitted request whose generated text starts with the error marker,
  a failed history entry is recorded and the error is returned; the only collaborator
  call made is the one to the generator, so neither the validator nor the executor runs.
\<close>

theorem error_token_skips_validator_and_executor:
  assumes "query_of req = Some q" and "resolve_client_ip req = Inr ip" and "admitted e w ip"
    and "get_sql_query e q (system_prompt e) = Inr sql" and "startswith sql ''ERROR:''"
  shows "history (snd (process_query e req w)) = history w @ [attempt ip q sql False] \<and>
         calls (snd (process_query e req w)) = calls w @ [Call_generator q (system_prompt e)] \<and>
         fst (process_query e req w) =
           [(''sql_query'', JStr sql),
            (''error'', JStr (py_strip (py_replace ''ERROR:'' [] sql))),
            (''remaining_requests'',
               remaining_requests e (tracker_after e ip q sql False (tracker w)) ip)]"
  using assms
  by (simp add: pq_generated_world pq_generated_response succeeded_def calls_after_generation_def)

theorem error_token_skips_validator_and_executor_witness:
  "admitted env_error_token fresh_world ''203.0.113.7'' \<and>
   startswith ''ERROR: bad ERROR: worse'' ''ERROR:'' \<and>
   history (snd (process_query env_error_token demo_request fresh_world)) =
     [attempt ''203.0.113.7'' ''top scorers'' ''ERROR: bad ERROR: worse'' False] \<and>
   calls (snd (process_query env_error_token demo_request fresh_world)) =
     [Call_generator ''top scorers'' ''prompt'']"
proof -
  have gen: "get_sql_query env_error_token ''top scorers'' (system_prompt env_error_token) =
               Inr ''ERROR: bad ERROR: worse''"
    by (simp add: env_defs)
  have marker: "startswith ''ERROR: bad ERROR: worse'' ''ERROR:''"
    by (simp add: startswith_def)
  show ?thesis
    using error_token_skips_validator_and_executor
            [OF demo_request_facts demo_admitted(3) gen marker] demo_admitted(3) marker
    by (simp add: fresh_world_def env_defs)
qed

text \<open>
  Claim C1, as the code has it. When the validator raises for the text of an admitted
  request, the fault is logged as a warning and the pipeline goes on to the executor with
  the same text: the calls made are generator, validator, executor, and the response is
  the one of the execution step (the rows, or the generic execution failure).
\<close>

theorem validator_fault_falls_through:
  assumes "query_of req = Some q" and "resolve_client_ip req = Inr ip" and "admitted e w ip"
    and "get_sql_query e q (system_prompt e) = Inr sql" and "\<not> startswith sql ''ERROR:''"
    and "validate_sql e sql = Inl ex"
  shows "calls (snd (process_query e req w)) =
           calls w @ [Call_generator q (system_prompt e), Call_validator sql, Call_executor sql] \<and>
         fst (process_query e req w) =
           [(''sql_query'', JStr sql),
            (case fetch_data e sql of
               Inr rows \<Rightarrow> (''result'', JArr rows)
             | Inl ex' \<Rightarrow> (''error'', JStr execution_failure_message)),
            (''remaining_requests'',
               remaining_requests e
                 (tracker_after e ip q sql (\<not> isl (fetch_data e sql)) (tracker w)) ip)] \<and>
         \<lparr>dl_level = WARNING, dl_message = ''SQL validation error: '' @ ex,
          dl_source = Some ''SQL validation'', dl_ip_address = Some ip\<rparr>
           \<in> set (db_logs (snd (process_query e req w)))"
proof -
  have rej: "\<not> validator_rejects e sql"
    using assms(6) by (simp add: validator_rejects_def)
  have "calls (snd (process_query e req w)) =
          calls w @ [Call_generator q (system_prompt e), Call_validator sql, Call_executor sql]"
    using assms rej by (simp add: pq_generated_world calls_after_generation_def)
  moreover have "fst (process_query e req w) =
           [(''sql_query'', JStr sql),
            (case fetch_data e sql of
               Inr rows \<Rightarrow> (''result'', JArr rows)
             | Inl ex' \<Rightarrow> (''error'', JStr execution_failure_message)),
            (''remaining_requests'',
               remaining_requests e
                 (tracker_after e ip q sql (\<not> isl (fetch_data e sql)) (tracker w)) ip)]"
    using assms rej by (simp add: pq_generated_response)
  moreover have "\<lparr>dl_level = WARNING, dl_message = ''SQL validation error: '' @ ex,
          dl_source = Some ''SQL validation'', dl_ip_address = Some ip\<rparr>
           \<in> set (db_logs (snd (process_query e req w)))"
    using assms
    by (simp add: pq_generate generate_step_sql error_token_step_def validate_step_def
        execute_step_def Let_def split: sum.splits)
  ultimately show ?thesis by simp
qed

theorem validator_fault_falls_through_witness:
  "admitted env_validator_fault fresh_world ''203.0.113.7'' \<and>
   \<not> startswith ''DROP TABLE matches'' ''ERROR:'' \<and>
   validate_sql env_validator_fault ''DROP TABLE matches'' = Inl ''parser crashed'' \<and>
   calls (snd (process_query env_validator_fault demo_request fresh_world)) =
     [Call_generator ''top scorers'' ''prompt'', Call_validator ''DROP TABLE matches'',
      Call_executor ''DROP TABLE matches'']"
proof -
  have gen: "get_sql_query env_validator_fault ''top scorers'' (system_prompt env_validator_fault) =
               Inr ''DROP TABLE matches''"
    by (simp add: env_defs)
  have marker: "\<not> startswith ''DROP TABLE matches'' ''ERROR:''"
    by (simp add: startswith_def)
  have fault: "validate_sql env_validator_fault ''DROP TABLE matches'' = Inl ''parser crashed''"
    by (simp add: env_defs)
  show ?thesis
    using validator_fault_falls_through [OF demo_request_facts demo_admitted(5) gen marker fault]
      demo_admitted(5) marker fault
    by (simp add: fresh_world_def env_defs)
qed

theorem validator_fault_reaches_executor:
  "validate_sql env_validator_fault ''DROP TABLE matches'' = Inl ''parser crashed'' \<and>
   Call_executor ''DROP TABLE matches''
     \<in> set (calls (snd (process_query env_validator_fault demo_request fresh_world))) \<and>
   field (fst (process_query env_validator_fault demo_request fresh_world)) ''error'' = None \<and>
   field (fst (process_query env_validator_fault demo_request fresh_world)) ''result'' =
     Some (JArr [JObj [(''name'', JStr ''final'')]])"
proof -
  have gen: "get_sql_query env_validator_fault ''top scorers'' (system_prompt env_validator_fault) =
               Inr ''DROP TABLE matches''"
    by (simp add: env_defs)
  have rej: "\<not> validator_rejects env_validator_fault ''DROP TABLE matches''"
    by (simp add: validator_rejects_def env_defs)
  have marker: "\<not> startswith ''DROP TABLE matches'' ''ERROR:''"
    by (simp add: startswith_def)
  have rows: "fetch_data env_validator_fault ''DROP TABLE matches'' =
                Inr [JObj [(''name'', JStr ''final'')]]"
    by (simp add: env_defs)
  show ?thesis
    using rej marker rows
    by (simp add: pq_generated_world(3) [OF demo_request_facts demo_admitted(5) gen]
        pq_generated_response [OF demo_request_facts demo_admitted(5) gen]
        calls_after_generation_def field_def)
       (simp add: env_defs)
qed

text \<open>
  Claim C2, as the code has it. Once the generator has returned a text for an admitted
  request, exactly one history entry is appended: it is tagged as succeeded when the text
  is no error marker, the validator does not reject it and the executor returns rows, and
  as failed when the text is an error marker, the validator rejects it or the executor
  fails. A request rejected by the rate limiter and a request whose generator call raises
  append no history entry: each of them adds one entry to the database log, and that is
  the only record of it.
\<close>

theorem history_entry_once_sql_is_generated:
  assumes "query_of req = Some q" and "resolve_client_ip req = Inr ip"
  shows "(admitted e w ip \<and> get_sql_query e q (system_prompt e) = Inr sql \<longrightarrow>
            history (snd (process_query e req w)) =
              history w @
                [attempt ip q sql
                   (\<not> startswith sql ''ERROR:'' \<and> \<not> validator_rejects e sql \<and>
                    \<not> isl (fetch_data e sql))]) \<and>
         (admitted e w ip \<and> get_sql_query e q (system_prompt e) = Inr sql \<and>
          \<not> startswith sql ''ERROR:'' \<and> \<not> validator_rejects e sql \<and> fetch_data e sql = Inr rows \<longrightarrow>
            history (snd (process_query e req w)) = history w @ [attempt ip q sql True]) \<and>
         (admitted e w ip \<and> get_sql_query e q (system_prompt e) = Inr sql \<and>
          (startswith sql ''ERROR:'' \<or> validator_rejects e sql \<or> isl (fetch_data e sql)) \<longrightarrow>
            history (snd (process_query e req w)) = history w @ [attempt ip q sql False]) \<and>
         (admitted e w ip \<and> get_sql_query e q (system_prompt e) = Inl ex \<longrightarrow>
            history (snd (process_query e req w)) = history w \<and>
            db_logs (snd (process_query e req w)) =
              db_logs w @ [\<lparr>dl_level = ERROR, dl_message = ''Failed to generate SQL: '' @ ex,
                             dl_source = Some ''SQL generation'', dl_ip_address = Some ip\<rparr>]) \<and>
         (get_global_remaining_requests e (tracker w) \<le> 0 \<longrightarrow>
            history (snd (process_query e req w)) = history w \<and>
            db_logs (snd (process_query e req w)) =
              db_logs w @ [\<lparr>dl_level = WARNING, dl_message = ''Global daily limit reached'',
                             dl_source = None, dl_ip_address = Some ip\<rparr>]) \<and>
         (0 < get_global_remaining_requests e (tracker w) \<and>
          \<not> fst (check_ip_limit e (tracker w) ip) \<longrightarrow>
            history (snd (process_query e req w)) = history w \<and>
            db_logs (snd (process_query e req w)) =
              db_logs w @ [\<lparr>dl_level = WARNING,
                             dl_message = ''IP exceeded request limit: '' @ ip,
                             dl_source = None, dl_ip_address = Some ip\<rparr>])"
proof -
  have entry: "history (snd (process_query e req w)) =
          history w @
            [attempt ip q sql
               (\<not> startswith sql ''ERROR:'' \<and> \<not> validator_rejects e sql \<and>
                \<not> isl (fetch_data e sql))]"
    if "admitted e w ip" and "get_sql_query e q (system_prompt e) = Inr sql"
    using pq_generated_world(2) [OF assms that] by (simp add: succeeded_def)
  have ok: "history (snd (process_query e req w)) = history w @ [attempt ip q sql True]"
    if "admitted e w ip" and "get_sql_query e q (system_prompt e) = Inr sql"
      and "\<not> startswith sql ''ERROR:''" and "\<not> validator_rejects e sql"
      and "fetch_data e sql = Inr rows"
    using entry [OF that(1,2)] that(3-5) by simp
  have failed: "history (snd (process_query e req w)) = history w @ [attempt ip q sql False]"
    if "admitted e w ip" and "get_sql_query e q (system_prompt e) = Inr sql"
      and "startswith sql ''ERROR:'' \<or> validator_rejects e sql \<or> isl (fetch_data e sql)"
    using entry [OF that(1,2)] that(3) by auto
  have raised: "history (snd (process_query e req w)) = history w \<and>
        db_logs (snd (process_query e req w)) =
          db_logs w @ [\<lparr>dl_level = ERROR, dl_message = ''Failed to generate SQL: '' @ ex,
                         dl_source = Some ''SQL generation'', dl_ip_address = Some ip\<rparr>]"
    if "admitted e w ip" and "get_sql_query e q (system_prompt e) = Inl ex"
    using pq_generation_raises(2,5) [OF assms that] by simp
  have global: "history (snd (process_query e req w)) = history w \<and>
        db_logs (snd (process_query e req w)) =
          db_logs w @ [\<lparr>dl_level = WARNING, dl_message = ''Global daily limit reached'',
                         dl_source = None, dl_ip_address = Some ip\<rparr>]"
    if "get_global_remaining_requests e (tracker w) \<le> 0"
    using pq_global_rejected(3,5) [OF assms that] by simp
  have per_ip: "history (snd (process_query e req w)) = history w \<and>
        db_logs (snd (process_query e req w)) =
          db_logs w @ [\<lparr>dl_level = WARNING, dl_message = ''IP exceeded request limit: '' @ ip,
                         dl_source = None, dl_ip_address = Some ip\<rparr>]"
    if "0 < get_global_remaining_requests e (tracker w)"
      and "\<not> fst (check_ip_limit e (tracker w) ip)"
    using pq_ip_rejected(3,5) [OF assms that] by simp
  show ?thesis
    using entry ok failed raised global per_ip by blast
qed

theorem history_entry_once_sql_is_generated_witness:
  "admitted demo_env fresh_world ''203.0.113.7'' \<and>
   history (snd (process_query demo_env demo_request fresh_world)) =
     [attempt ''203.0.113.7'' ''top scorers'' ''SELECT name FROM matches'' True] \<and>
   admitted env_executor_fails fresh_world ''203.0.113.7'' \<and>
   isl (fetch_data env_executor_fails ''SELECT name FROM matches'') \<and>
   history (snd (process_query env_executor_fails demo_request fresh_world)) =
     [attempt ''203.0.113.7'' ''top scorers'' ''SELECT name FROM matches'' False] \<and>
   admitted env_generator_raises fresh_world ''203.0.113.7'' \<and>
   history (snd (process_query env_generator_raises demo_request fresh_world)) = [] \<and>
   db_logs (snd (process_query env_generator_raises demo_request fresh_world)) =
     [\<lparr>dl_level = ERROR,
       dl_message = ''Failed to generate SQL: Expecting value: line 1 column 1 (char 0)'',
       dl_source = Some ''SQL generation'', dl_ip_address = Some ''203.0.113.7''\<rparr>] \<and>
   get_global_remaining_requests env_global_exhausted (tracker fresh_world) \<le> 0 \<and>
   history (snd (process_query env_global_exhausted demo_request fresh_world)) = [] \<and>
   db_logs (snd (process_query env_global_exhausted demo_request fresh_world)) =
     [\<lparr>dl_level = WARNING, dl_message = ''Global daily limit reached'',
       dl_source = None, dl_ip_address = Some ''203.0.113.7''\<rparr>] \<and>
   0 < get_global_remaining_requests env_ip_exhausted (tracker fresh_world) \<and>
   \<not> fst (check_ip_limit env_ip_exhausted (tracker fresh_world) ''203.0.113.7'') \<and>
   history (snd (process_query env_ip_exhausted demo_request fresh_world)) = [] \<and>
   db_logs (snd (process_query env_ip_exhausted demo_request fresh_world)) =
     [\<lparr>dl_level = WARNING, dl_message = ''IP exceeded request limit: 203.0.113.7'',
       dl_source = None, dl_ip_address = Some ''203.0.113.7''\<rparr>]"
proof -
  have gen: "get_sql_query demo_env ''top scorers'' (system_prompt demo_env) =
               Inr ''SELECT name FROM matches''"
    "get_sql_query env_executor_fails ''top scorers'' (system_prompt env_executor_fails) =
               Inr ''SELECT name FROM matches''"
    by (simp_all add: env_defs)
  have path: "\<not> startswith ''SELECT name FROM matches'' ''ERROR:''"
    "\<not> validator_rejects demo_env ''SELECT name FROM matches''"
    "fetch_data demo_env ''SELECT name FROM matches'' = Inr [JObj [(''name'', JStr ''final'')]]"
    by (simp_all add: startswith_def validator_rejects_def env_defs)
  have fails: "isl (fetch_data env_executor_fails ''SELECT name FROM matches'')"
    by (simp add: env_defs)
  have raises: "get_sql_query env_generator_raises ''top scorers''
                  (system_prompt env_generator_raises) =
                Inl ''Expecting value: line 1 column 1 (char 0)''"
    by (simp add: env_defs)
  have empty: "history fresh_world = []" "db_logs fresh_world = []"
    by (simp_all add: fresh_world_def)
  show ?thesis
    using history_entry_once_sql_is_generated [OF demo_request_facts,
            where e = demo_env and w = fresh_world and sql = "''SELECT name FROM matches''"
              and rows = "[JObj [(''name'', JStr ''final'')]]" and ex = "[]"]
      history_entry_once_sql_is_generated [OF demo_request_facts,
            where e = env_executor_fails and w = fresh_world
              and sql = "''SELECT name FROM matches''" and rows = "[]" and ex = "[]"]
      history_entry_once_sql_is_generated [OF demo_request_facts,
            where e = env_generator_raises and w = fresh_world and sql = "[]" and rows = "[]"
              and ex = "''Expecting value: line 1 column 1 (char 0)''"]
      history_entry_once_sql_is_generated [OF demo_request_facts,
            where e = env_global_exhausted and w = fresh_world and sql = "[]" and rows = "[]"
              and ex = "[]"]
      history_entry_once_sql_is_generated [OF demo_request_facts,
            where e = env_ip_exhausted and w = fresh_world and sql = "[]" and rows = "[]"
              and ex = "[]"]
      gen path fails raises demo_admitted(1,2,6) demo_rejected(3,5,6) empty
    by simp
qed

theorem admission_rejection_leaves_no_history:
  "fst (process_query env_global_exhausted demo_request fresh_world) =
     [(''error'', JStr global_limit_message)] \<and>
   history (snd (process_query env_global_exhausted demo_request fresh_world)) = []"
proof -
  have zero: "get_global_remaining_requests env_global_exhausted (tracker fresh_world) \<le> 0"
    using demo_rejected(3) by simp
  have "history fresh_world = []"
    by (simp add: fresh_world_def)
  then show ?thesis
    using pq_global_rejected(1,3) [OF demo_request_facts zero] by simp
qed

text \<open>
  Claim C6, evaluated on the code. For the generated text
  \<^verbatim>\<open>ERROR: bad ERROR: worse\<close> the reason returned is \<^verbatim>\<open>bad  worse\<close>: the call to
  \<^verbatim>\<open>replace\<close> removes the later marker as well as the leading one.
\<close>

theorem error_reason_loses_later_markers:
  "startswith ''ERROR: bad ERROR: worse'' ''ERROR:'' \<and>
   field (fst (process_query env_error_token demo_request fresh_world)) ''error'' =
     Some (JStr ''bad  worse'') \<and>
   ''bad  worse'' \<noteq> py_strip (drop (length ''ERROR:'') ''ERROR: bad ERROR: worse'')"
proof -
  have gen: "get_sql_query env_error_token ''top scorers'' (system_prompt env_error_token) =
               Inr ''ERROR: bad ERROR: worse''"
    by (simp add: env_defs)
  have marker: "startswith ''ERROR: bad ERROR: worse'' ''ERROR:''"
    by (simp add: startswith_def)
  have reason: "py_strip (py_replace ''ERROR:'' [] ''ERROR: bad ERROR: worse'') = ''bad  worse''"
    by (simp add: py_strip_def py_isspace_def startswith_def)
  have prefix_only: "py_strip (drop (length ''ERROR:'') ''ERROR: bad ERROR: worse'') =
                       ''bad ERROR: worse''"
    by (simp add: py_strip_def py_isspace_def)
  show ?thesis
    using marker reason prefix_only
    by (simp add: pq_generated_response [OF demo_request_facts demo_admitted(3) gen] field_def)
qed

text \<open>
  Claim C7. When the executor fails for an admitted request, the response carries the
  fixed execution-failure message: replacing the executor by one that fails with another
  exception text gives the same response, the same history and the same tracker store.
  The exception text goes to the logger only.
\<close>

theorem execution_failure_message_is_generic:
  assumes "query_of req = Some q" and "resolve_client_ip req = Inr ip" and "admitted e w ip"
    and "get_sql_query e q (system_prompt e) = Inr sql" and "\<not> startswith sql ''ERROR:''"
    and "\<not> validator_rejects e sql"
    and "fetch_data e sql = Inl ex1" and "f sql = Inl ex2"
  shows "fst (process_query (e\<lparr>fetch_data := f\<rparr>) req w) = fst (process_query e req w) \<and>
         field (fst (process_query e req w)) ''error'' = Some (JStr execution_failure_message) \<and>
         history (snd (process_query (e\<lparr>fetch_data := f\<rparr>) req w)) =
           history (snd (process_query e req w)) \<and>
         tracker (snd (process_query (e\<lparr>fetch_data := f\<rparr>) req w)) =
           tracker (snd (process_query e req w)) \<and>
         (ERROR, ''Error executing query: '' @ ex1) \<in> set (logger_lines (snd (process_query e req w)))"
proof -
  let ?e' = "e\<lparr>fetch_data := f\<rparr>"
  let ?r = "remaining_requests e (tracker_after e ip q sql False (tracker w)) ip"
  have adm': "admitted ?e' w ip"
    using assms(3) by (simp add: admitted_def)
  have gen': "get_sql_query ?e' q (system_prompt ?e') = Inr sql"
    using assms(4) by simp
  have rej': "\<not> validator_rejects ?e' sql"
    using assms(6) by (simp add: validator_rejects_def)
  have same_after: "tracker_after ?e' ip q sql ok (tracker w) = tracker_after e ip q sql ok (tracker w)"
    for ok
    by (simp add: tracker_after_def)
  have same_remaining: "remaining_requests ?e' t ip = remaining_requests e t ip" for t
    by (simp add: remaining_requests_def)
  have resp: "fst (process_query e req w) =
                [(''sql_query'', JStr sql), (''error'', JStr execution_failure_message),
                 (''remaining_requests'', ?r)]"
    using assms(5-7) by (simp add: pq_generated_response [OF assms(1-4)])
  have resp': "fst (process_query ?e' req w) =
                [(''sql_query'', JStr sql), (''error'', JStr execution_failure_message),
                 (''remaining_requests'', ?r)]"
    using assms(5,8) rej'
    by (simp add: pq_generated_response [OF assms(1,2) adm' gen'] same_after same_remaining)
  have hist: "history (snd (process_query ?e' req w)) = history (snd (process_query e req w))"
    using assms(5-8) rej'
    by (simp add: pq_generated_world(2) [OF assms(1-4)]
        pq_generated_world(2) [OF assms(1,2) adm' gen'] succeeded_def)
  have trk: "tracker (snd (process_query ?e' req w)) = tracker (snd (process_query e req w))"
    using assms(5-8) rej'
    by (simp add: pq_generated_world(1) [OF assms(1-4)]
        pq_generated_world(1) [OF assms(1,2) adm' gen'] succeeded_def same_after)
  have logged: "(ERROR, ''Error executing query: '' @ ex1)
                  \<in> set (logger_lines (snd (process_query e req w)))"
    using assms(3-7)
    by (simp add: pq_generate [OF assms(1-3)] generate_step_sql error_token_step_def
        validate_step_def validator_rejects_def execute_step_def Let_def sink_defs
        record_attempt_def split: sum.splits prod.splits)
  show ?thesis
    using resp resp' hist trk logged by (simp add: field_def)
qed

theorem execution_failure_message_is_generic_witness:
  "admitted env_executor_fails fresh_world ''203.0.113.7'' \<and>
   \<not> startswith ''SELECT name FROM matches'' ''ERROR:'' \<and>
   \<not> validator_rejects env_executor_fails ''SELECT name FROM matches'' \<and>
   fetch_data env_executor_fails ''SELECT name FROM matches'' = Inl ''Catalog Error: no such table'' \<and>
   fst (process_query (env_executor_fails\<lparr>fetch_data := other_failure\<rparr>) demo_request fresh_world) =
     fst (process_query env_executor_fails demo_request fresh_world) \<and>
   field (fst (process_query env_executor_fails demo_request fresh_world)) ''error'' =
     Some (JStr ''Oops! Something went wrong while trying to get your answer.'')"
proof -
  have gen: "get_sql_query env_executor_fails ''top scorers'' (system_prompt env_executor_fails) =
               Inr ''SELECT name FROM matches''"
    by (simp add: env_defs)
  have marker: "\<not> startswith ''SELECT name FROM matches'' ''ERROR:''"
    by (simp add: startswith_def)
  have rej: "\<not> validator_rejects env_executor_fails ''SELECT name FROM matches''"
    by (simp add: validator_rejects_def env_defs)
  have fails: "fetch_data env_executor_fails ''SELECT name FROM matches'' =
                 Inl ''Catalog Error: no such table''"
    by (simp add: env_defs)
  have other: "other_failure ''SELECT name FROM matches'' = Inl ''IO Error: disk full''"
    by (simp add: other_failure_def)
  show ?thesis
    using execution_failure_message_is_generic
            [where f = other_failure, OF demo_request_facts demo_admitted(6) gen marker rej fails other]
      demo_admitted(6) marker rej fails
    by (simp add: execution_failure_message_def)
qed

text \<open>
  Claim C8, as the code has it. Once the generator has returned a text for an admitted
  request, the response holds \<^verbatim>\<open>sql_query\<close>, exactly one of \<^verbatim>\<open>result\<close> and
  \<^verbatim>\<open>error\<close>, and \<^verbatim>\<open>remaining_requests\<close> with the fields \<^verbatim>\<open>user_remaining\<close> and
  \<^verbatim>\<open>global_remaining\<close>. When the generator call raises, the response holds
  \<^verbatim>\<open>error\<close> and \<^verbatim>\<open>remaining_requests\<close> only; when the rate limiter rejects the
  request, it holds \<^verbatim>\<open>error\<close> only.
\<close>

theorem response_keys_by_path:
  assumes "query_of req = Some q" and "resolve_client_ip req = Inr ip"
  shows "(admitted e w ip \<and> get_sql_query e q (system_prompt e) = Inr sql \<longrightarrow>
            has_key (fst (process_query e req w)) ''sql_query'' \<and>
            (has_key (fst (process_query e req w)) ''result'' \<noteq>
             has_key (fst (process_query e req w)) ''error'') \<and>
            field (fst (process_query e req w)) ''remaining_requests'' =
              Some (JObj [(''user_remaining'',
                             JInt (get_ip_remaining_requests e
                                     (tracker (snd (process_query e req w))) ip)),
                          (''global_remaining'',
                             JInt (get_global_remaining_requests e
                                     (tracker (snd (process_query e req w)))))])) \<and>
         (admitted e w ip \<and> get_sql_query e q (system_prompt e) = Inl ex \<longrightarrow>
            map fst (fst (process_query e req w)) = [''error'', ''remaining_requests'']) \<and>
         (\<not> admitted e w ip \<longrightarrow> map fst (fst (process_query e req w)) = [''error''])"
proof -
  have "has_key (fst (process_query e req w)) ''sql_query'' \<and>
        (has_key (fst (process_query e req w)) ''result'' \<noteq>
         has_key (fst (process_query e req w)) ''error'') \<and>
        field (fst (process_query e req w)) ''remaining_requests'' =
          Some (JObj [(''user_remaining'',
                         JInt (get_ip_remaining_requests e
                                 (tracker (snd (process_query e req w))) ip)),
                      (''global_remaining'',
                         JInt (get_global_remaining_requests e
                                 (tracker (snd (process_query e req w)))))])"
    if "admitted e w ip" and "get_sql_query e q (system_prompt e) = Inr sql"
    by (simp add: pq_generated_response [OF assms that] pq_generated_world(1) [OF assms that]
        has_key_def field_def remaining_requests_def succeeded_def split: sum.splits)
  moreover have "map fst (fst (process_query e req w)) = [''error'', ''remaining_requests'']"
    if "admitted e w ip" and "get_sql_query e q (system_prompt e) = Inl ex"
    by (simp add: pq_generation_raises(4) [OF assms that])
  moreover have "map fst (fst (process_query e req w)) = [''error'']" if "\<not> admitted e w ip"
    using not_admitted_cases [OF that]
  proof (elim disjE conjE)
    assume "get_global_remaining_requests e (tracker w) \<le> 0"
    then show ?thesis
      by (simp add: pq_global_rejected(1) [OF assms])
  next
    assume "0 < get_global_remaining_requests e (tracker w)"
      and "\<not> fst (check_ip_limit e (tracker w) ip)"
    then show ?thesis
      by (simp add: pq_ip_rejected(1) [OF assms])
  qed
  ultimately show ?thesis by blast
qed

theorem response_keys_by_path_witness:
  "admitted demo_env fresh_world ''203.0.113.7'' \<and>
   has_key (fst (process_query demo_env demo_request fresh_world)) ''sql_query'' \<and>
   has_key (fst (process_query demo_env demo_request fresh_world)) ''result'' \<and>
   field (fst (process_query demo_env demo_request fresh_world)) ''remaining_requests'' =
     Some (JObj [(''user_remaining'', JInt 4), (''global_remaining'', JInt 99)]) \<and>
   admitted env_generator_raises fresh_world ''203.0.113.7'' \<and>
   map fst (fst (process_query env_generator_raises demo_request fresh_world)) =
     [''error'', ''remaining_requests''] \<and>
   \<not> admitted env_global_exhausted fresh_world ''203.0.113.7'' \<and>
   map fst (fst (process_query env_global_exhausted demo_request fresh_world)) = [''error'']"
proof -
  have gen: "get_sql_query demo_env ''top scorers'' (system_prompt demo_env) =
               Inr ''SELECT name FROM matches''"
    by (simp add: env_defs)
  have raises: "get_sql_query env_generator_raises ''top scorers''
                  (system_prompt env_generator_raises) =
                Inl ''Expecting value: line 1 column 1 (char 0)''"
    by (simp add: env_defs)
  have path: "\<not> startswith ''SELECT name FROM matches'' ''ERROR:''"
    "\<not> validator_rejects demo_env ''SELECT name FROM matches''"
    "fetch_data demo_env ''SELECT name FROM matches'' = Inr [JObj [(''name'', JStr ''final'')]]"
    by (simp_all add: startswith_def validator_rejects_def env_defs)
  have after: "tracker (snd (process_query demo_env demo_request fresh_world)) = Suc 0"
    using path
    by (simp add: pq_generated_world(1) [OF demo_request_facts demo_admitted(1) gen]
        succeeded_def tracker_after_def)
       (simp add: env_defs fresh_world_def)
  have remaining: "get_ip_remaining_requests demo_env (Suc 0) ''203.0.113.7'' = 4"
    "get_global_remaining_requests demo_env (Suc 0) = 99"
    by (simp_all add: env_defs)
  have result: "has_key (fst (process_query demo_env demo_request fresh_world)) ''result''"
    using path
    by (simp add: pq_generated_response [OF demo_request_facts demo_admitted(1) gen]
        has_key_def field_def)
  show ?thesis
    using response_keys_by_path [OF demo_request_facts,
            of demo_env fresh_world "''SELECT name FROM matches''"]
      response_keys_by_path [OF demo_request_facts,
            of env_generator_raises fresh_world _ "''Expecting value: line 1 column 1 (char 0)''"]
      response_keys_by_path [OF demo_request_facts, of env_global_exhausted fresh_world]
      gen raises remaining result after demo_admitted(1,2) demo_rejected(1)
    by simp
qed

theorem rejection_response_has_only_error:
  "fst (process_query env_ip_exhausted demo_request fresh_world) =
     [(''error'', JStr ''You have exceeded your daily limit. You have 0 requests remaining for today.'')] \<and>
   \<not> has_key (fst (process_query env_ip_exhausted demo_request fresh_world)) ''sql_query'' \<and>
   \<not> has_key (fst (process_query env_ip_exhausted demo_request fresh_world)) ''remaining_requests''"
proof -
  have zero: "get_ip_remaining_requests env_ip_exhausted
                (snd (check_ip_limit env_ip_exhausted (tracker fresh_world) ''203.0.113.7''))
                ''203.0.113.7'' = 0"
    by (simp add: env_defs fresh_world_def)
  have msg: "ip_limit_message 0 =
               ''You have exceeded your daily limit. You have 0 requests remaining for today.''"
    by (simp add: ip_limit_message_def str_int_def str_nat.simps)
  have "fst (process_query env_ip_exhausted demo_request fresh_world) =
          [(''error'', JStr (ip_limit_message 0))]"
    using pq_ip_rejected(1) [OF demo_request_facts demo_rejected(5,6)] zero by simp
  then show ?thesis
    by (simp add: msg has_key_def field_def)
qed

text \<open>
  Claim C10. When an exception escapes the stages of the pipeline, the handler at the end
  of the endpoint answers with the fixed \<^verbatim>\<open>error\<close> text and puts the exception's own
  text into the \<^verbatim>\<open>details\<close> field of the response.
\<close>

theorem catch_all_exposes_exception_text:
  assumes "query_of req = Some q" and "fst (pipeline e req q w) = Inl ex"
  shows "fst (process_query e req w) =
           [(''error'', JStr ''Invalid request format. Please ensure you're sending the correct form data.''),
            (''details'', JStr ex)]"
  using assms by (cases "pipeline e req q w") (simp add: process_query_def Let_def)

theorem catch_all_exposes_exception_text_witness:
  "query_of no_client_request = Some ''top scorers'' \<and>
   fst (pipeline demo_env no_client_request ''top scorers'' fresh_world) =
     Inl (CHR 0x27 # ''NoneType'' @ CHR 0x27 # '' object has no attribute '' @
          CHR 0x27 # ''host'' @ [CHR 0x27]) \<and>
   field (fst (process_query demo_env no_client_request fresh_world)) ''details'' =
     Some (JStr (CHR 0x27 # ''NoneType'' @ CHR 0x27 # '' object has no attribute '' @
                 CHR 0x27 # ''host'' @ [CHR 0x27]))"
proof -
  have esc: "fst (pipeline demo_env no_client_request ''top scorers'' fresh_world) =
     Inl (CHR 0x27 # ''NoneType'' @ CHR 0x27 # '' object has no attribute '' @
          CHR 0x27 # ''host'' @ [CHR 0x27])"
    by (simp add: pipeline_def Let_def no_client_request_facts(2))
  show ?thesis
    using catch_all_exposes_exception_text [OF no_client_request_facts(1) esc]
      no_client_request_facts(1) esc
    by (simp add: field_def)
qed

section \<open>Properties of the validator's lexer\<close>

















text \<open>Tokenising over text that holds no quote.\<close>

lemma sum_case_id:
  "(case x of Inl err \<Rightarrow> Inl err | Inr ts \<Rightarrow> Inr ts) = x"
  by (cases x) simp_all











section \<open>Properties of the validator\<close>












end
